theory Spec2Isabelle
  imports Complex_Main
begin

section \<open>Numbers and errors of the Python source\<close>

text \<open>
  The financial helpers of \<^verbatim>\<open>app.py\<close> compute on Python floats. A finite
  float is modelled by a \<^typ>\<open>real\<close>: arithmetic is exact, rounding, overflow
  and infinities are not modelled. The month count is a Python \<^verbatim>\<open>int\<close>, an
  \<^typ>\<open>int\<close> here. Every exception the arithmetic of the source can raise on
  finite numbers is a value of \<open>py_error\<close>, and a function that can raise returns
  \<open>py_error + 'a\<close>.
\<close>

datatype py_error = ZeroDivisionError

text \<open>Python's \<^verbatim>\<open>a / b\<close> on floats: division by zero raises.\<close>

definition py_div :: "real \<Rightarrow> real \<Rightarrow> py_error + real" where
  "py_div a b = (if b = 0 then Inl ZeroDivisionError else Inr (a / b))"

text \<open>
  Python's \<^verbatim>\<open>x ** n\<close> for a float \<open>x\<close> and an int \<open>n\<close>: zero to a
  negative power raises, everything else is the integer power.
\<close>

definition py_pow_int :: "real \<Rightarrow> int \<Rightarrow> py_error + real" where
  "py_pow_int x n = (if x = 0 \<and> n < 0 then Inl ZeroDivisionError else Inr (x powi n))"

section \<open>Annuity payment (PRICE system)\<close>

text \<open>
  \<^verbatim>\<open>
  def annuity_payment(principal, monthly_rate, months):
      if months == 0:
          return 0.0
      if monthly_rate == 0:
          return principal / months
      r = monthly_rate
      payment = r * principal / (1 - (1 + r) ** (-months))
      return payment
  \<close>
  The parameter \<^verbatim>\<open>principal\<close> is written \<open>princ\<close>: \<open>principal\<close> is a
  constant of the library.
\<close>

definition annuity_payment :: "real \<Rightarrow> real \<Rightarrow> int \<Rightarrow> py_error + real" where
  "annuity_payment princ monthly_rate months =
     (if months = 0 then Inr 0
      else if monthly_rate = 0 then Inr (princ / of_int months)
      else
        (let r = monthly_rate in
         case py_pow_int (1 + r) (- months) of
           Inl e \<Rightarrow> Inl e
         | Inr p \<Rightarrow> py_div (r * princ) (1 - p)))"

section \<open>Amortization schedule of the financing\<close>

text \<open>
  One row of the consortium table and one row of the amortization table: the dictionaries
  the source appends to \<^verbatim>\<open>rows\<close>, with the keys as fields. The two tables share the
  keys \<^verbatim>\<open>month\<close>, \<^verbatim>\<open>amortizacao\<close> and \<^verbatim>\<open>parcela\<close>; the fields of
  the consortium row carry the prefix \<open>c_\<close> to keep the two apart.
\<close>

record cons_row =
  c_month :: int
  c_amortizacao :: real
  c_admin :: real
  c_reserva :: real
  c_parcela :: real

record amort_row =
  month :: int
  saldo_inicial :: real
  juros :: real
  amortizacao :: real
  seguro :: real
  outras_taxas :: real
  parcela :: real
  saldo_final :: real

text \<open>
  The body of the loop \<^verbatim>\<open>for m in range(1, months + 1)\<close> of
  \<^verbatim>\<open>financing_amortization_schedule\<close>, over the months still to run, with the
  running \<^verbatim>\<open>balance\<close> passed along:
  \<^verbatim>\<open>
      interest_comp = monthly_interest * balance
      amort = payment - interest_comp
      saldo_final = max(balance - amort, 0.0)
      seguro_mensal = insurance_annual_pct / 100.0 / 12.0 * financed_amount
      outras_taxas_mensais = other_monthly_fees_pct_on_balance / 100.0 / 12.0 * balance
      parcela_total = payment + seguro_mensal + outras_taxas_mensais
      rows.append({...})
      balance = saldo_final
  \<close>
\<close>

fun amortization_loop ::
  "real \<Rightarrow> real \<Rightarrow> real \<Rightarrow> real \<Rightarrow> real \<Rightarrow> real \<Rightarrow> int list \<Rightarrow> amort_row list" where
  "amortization_loop financed_amount monthly_interest payment insurance_annual_pct
      other_monthly_fees_pct_on_balance balance [] = []"
| "amortization_loop financed_amount monthly_interest payment insurance_annual_pct
      other_monthly_fees_pct_on_balance balance (m # ms) =
     (let interest_comp = monthly_interest * balance;
          amort = payment - interest_comp;
          saldo_final = max (balance - amort) 0;
          seguro_mensal = insurance_annual_pct / 100 / 12 * financed_amount;
          outras_taxas_mensais = other_monthly_fees_pct_on_balance / 100 / 12 * balance;
          parcela_total = payment + seguro_mensal + outras_taxas_mensais
      in \<lparr>month = m, saldo_inicial = balance, juros = interest_comp, amortizacao = amort,
           seguro = seguro_mensal, outras_taxas = outras_taxas_mensais,
           parcela = parcela_total, saldo_final = saldo_final\<rparr>
         # amortization_loop financed_amount monthly_interest payment insurance_annual_pct
             other_monthly_fees_pct_on_balance saldo_final ms)"

text \<open>
  \<^verbatim>\<open>financing_amortization_schedule\<close>: the financed amount, the monthly rate by
  simple division, the payment (whose exception, if any, propagates), row 0 with the down
  payment and the upfront fee, then the loop over the months \<open>1..months\<close> (empty when
  \<open>months < 1\<close>, as Python's \<^verbatim>\<open>range\<close> is). The data frame is the list of rows.
\<close>

definition financing_amortization_schedule ::
  "real \<Rightarrow> real \<Rightarrow> int \<Rightarrow> real \<Rightarrow> real \<Rightarrow> real \<Rightarrow> real \<Rightarrow> py_error + amort_row list" where
  "financing_amortization_schedule property_value down_payment months annual_interest_pct
      insurance_annual_pct other_upfront_fees_pct other_monthly_fees_pct_on_balance =
     (let financed_amount = property_value - down_payment;
          monthly_interest = annual_interest_pct / 100 / 12
      in case annuity_payment financed_amount monthly_interest months of
           Inl e \<Rightarrow> Inl e
         | Inr payment \<Rightarrow>
             (let upfront_fee = other_upfront_fees_pct / 100 * financed_amount
              in Inr (\<lparr>month = 0, saldo_inicial = financed_amount, juros = 0,
                        amortizacao = 0, seguro = 0, outras_taxas = upfront_fee,
                        parcela = down_payment + upfront_fee,
                        saldo_final = financed_amount\<rparr>
                      # amortization_loop financed_amount monthly_interest payment
                          insurance_annual_pct other_monthly_fees_pct_on_balance
                          financed_amount [1..months])))"

text \<open>
  For the proofs: one turn of the loop takes the balance \<open>b\<close> to
  \<^verbatim>\<open>max(b - (payment - monthly_interest * b), 0.0)\<close>, and \<open>balance_after\<close> is
  the running balance after \<open>k\<close> turns.
\<close>

definition next_balance :: "real \<Rightarrow> real \<Rightarrow> real \<Rightarrow> real" where
  "next_balance monthly_interest payment balance =
     max (balance - (payment - monthly_interest * balance)) 0"

primrec balance_after :: "real \<Rightarrow> real \<Rightarrow> real \<Rightarrow> nat \<Rightarrow> real" where
  "balance_after monthly_interest payment balance 0 = balance"
| "balance_after monthly_interest payment balance (Suc k) =
     next_balance monthly_interest payment (balance_after monthly_interest payment balance k)"

section \<open>Cash flows of the consortium\<close>

text \<open>
  \<^verbatim>\<open>
  parcel_base = credit_value / months if months > 0 else 0.0
  admin_monthly = admin_annual_pct / 100.0 / 12.0 * credit_value
  reserve_monthly = reserve_monthly_pct / 100.0 * credit_value
  rows = [{"month": 0, "amortizacao": 0.0, "admin": 0.0,
           "reserva": initial_bid_payment, "parcela": initial_bid_payment}]
  for m in range(1, months + 1):
      parcela_total = parcel_base + admin_monthly + reserve_monthly
      rows.append({"month": m, "amortizacao": parcel_base, "admin": admin_monthly,
                   "reserva": reserve_monthly, "parcela": parcela_total})
  \<close>
\<close>

definition compute_consorcio_cashflows ::
  "real \<Rightarrow> int \<Rightarrow> real \<Rightarrow> real \<Rightarrow> real \<Rightarrow> cons_row list" where
  "compute_consorcio_cashflows credit_value months admin_annual_pct reserve_monthly_pct
      initial_bid_payment =
     (let parcel_base = (if months > 0 then credit_value / of_int months else 0);
          admin_monthly = admin_annual_pct / 100 / 12 * credit_value;
          reserve_monthly = reserve_monthly_pct / 100 * credit_value
      in \<lparr>c_month = 0, c_amortizacao = 0, c_admin = 0, c_reserva = initial_bid_payment,
           c_parcela = initial_bid_payment\<rparr>
         # map (\<lambda>m. let parcela_total = parcel_base + admin_monthly + reserve_monthly
                    in \<lparr>c_month = m, c_amortizacao = parcel_base, c_admin = admin_monthly,
                         c_reserva = reserve_monthly, c_parcela = parcela_total\<rparr>)
               [1..months])"

section \<open>Internal rate of return and required capital\<close>

text \<open>
  A metric that may be \<^verbatim>\<open>np.nan\<close>: a number or the not-a-number sentinel.
\<close>

datatype pyfloat = Num real | NaN

text \<open>
  \<^verbatim>\<open>
  def monthly_irr_from_cashflows(cashflows):
      try:
          rate = np.irr(cashflows.values)
          return rate
      except Exception:
          return np.nan
  \<close>
  \<^verbatim>\<open>np.irr\<close> is numpy's, not this program's, so it is a parameter: a function
  that returns a metric or raises an exception of any type \<open>'e\<close>.
\<close>

definition monthly_irr_from_cashflows :: "(real list \<Rightarrow> 'e + pyfloat) \<Rightarrow> real list \<Rightarrow> pyfloat" where
  "monthly_irr_from_cashflows np_irr cashflows =
     (case np_irr cashflows of Inr rate \<Rightarrow> rate | Inl e \<Rightarrow> NaN)"

text \<open>
  What \<^verbatim>\<open>np.irr\<close> is documented to compute, read in exact arithmetic: a rate it
  returns is above \<open>-1\<close> and zeroes the net present value of a vector of at least two
  entries (it is \<open>1/x - 1\<close> for a positive real root \<open>x\<close> of the polynomial whose
  coefficients are the cash flows). Otherwise it returns \<^verbatim>\<open>nan\<close> or raises.
\<close>

definition npv :: "real \<Rightarrow> real list \<Rightarrow> real" where
  "npv rate values = (\<Sum>i<length values. values ! i / (1 + rate) ^ i)"

definition np_irr_contract :: "(real list \<Rightarrow> 'e + pyfloat) \<Rightarrow> bool" where
  "np_irr_contract np_irr =
     (\<forall>values r. np_irr values = Inr (Num r) \<longrightarrow>
        2 \<le> length values \<and> - 1 < r \<and> npv r values = 0)"

text \<open>
  \<^verbatim>\<open>
  def required_capital_to_cover_payment(monthly_payment, monthly_return_pct):
      if monthly_return_pct <= 0:
          return np.nan
      return monthly_payment / monthly_return_pct
  \<close>
\<close>

definition required_capital_to_cover_payment :: "real \<Rightarrow> real \<Rightarrow> pyfloat" where
  "required_capital_to_cover_payment monthly_payment monthly_return_pct =
     (if monthly_return_pct \<le> 0 then NaN else Num (monthly_payment / monthly_return_pct))"

section \<open>Net present value\<close>

text \<open>
  \<^verbatim>\<open>
  def compute_vpl(cashflows, annual_discount_pct):
      monthly_discount = (1 + annual_discount_pct / 100.0) ** (1/12) - 1
      vpl = sum(cf / ((1 + monthly_discount) ** i) for i, cf in enumerate(cashflows))
      return vpl
  \<close>
  Python's \<^verbatim>\<open>**\<close> on a negative float and a fractional exponent returns a complex
  number, and the arithmetic that follows is complex arithmetic. So a value here is a float
  or a complex number (the \<^verbatim>\<open>int\<close> 0 that \<^verbatim>\<open>sum\<close> starts from is the float 0).
\<close>

datatype pynum = PyFloat real | PyComplex complex

text \<open>
  \<^verbatim>\<open>x ** y\<close> on two floats: anything to the power 0 is 1; zero to a negative power
  raises; a negative base with a fractional exponent goes to the complex power, of modulus
  \<open>|x| ** y\<close> and argument \<open>pi * y\<close>; a negative base with an integral exponent is
  the integer power; otherwise the real power.
\<close>

definition py_pow_float :: "real \<Rightarrow> real \<Rightarrow> py_error + pynum" where
  "py_pow_float x y =
     (if y = 0 then Inr (PyFloat 1)
      else if x = 0 then (if y < 0 then Inl ZeroDivisionError else Inr (PyFloat 0))
      else if x < 0 \<and> y \<noteq> of_int \<lfloor>y\<rfloor> then
        Inr (PyComplex (of_real (\<bar>x\<bar> powr y) * cis (pi * y)))
      else if x < 0 then Inr (PyFloat (x powi \<lfloor>y\<rfloor>))
      else Inr (PyFloat (x powr y)))"

text \<open>
  The operations \<^verbatim>\<open>compute_vpl\<close> applies to such values: \<^verbatim>\<open>p - 1\<close>,
  \<^verbatim>\<open>1 + monthly_discount\<close>, the power by the index \<open>i\<close> of \<^verbatim>\<open>enumerate\<close> (a
  non-negative \<^verbatim>\<open>int\<close>, so it never raises), \<^verbatim>\<open>cf / d\<close>, which raises on a zero
  divisor, float or complex, and the addition of \<^verbatim>\<open>sum\<close>.
\<close>

fun num_sub_float :: "pynum \<Rightarrow> real \<Rightarrow> pynum" where
  "num_sub_float (PyFloat a) b = PyFloat (a - b)"
| "num_sub_float (PyComplex z) b = PyComplex (z - of_real b)"

fun num_radd :: "real \<Rightarrow> pynum \<Rightarrow> pynum" where
  "num_radd a (PyFloat b) = PyFloat (a + b)"
| "num_radd a (PyComplex z) = PyComplex (of_real a + z)"

fun num_pow_nat :: "pynum \<Rightarrow> nat \<Rightarrow> pynum" where
  "num_pow_nat (PyFloat a) i = PyFloat (a ^ i)"
| "num_pow_nat (PyComplex z) i = PyComplex (z ^ i)"

fun num_rdiv :: "real \<Rightarrow> pynum \<Rightarrow> py_error + pynum" where
  "num_rdiv a (PyFloat b) = (if b = 0 then Inl ZeroDivisionError else Inr (PyFloat (a / b)))"
| "num_rdiv a (PyComplex z) =
     (if z = 0 then Inl ZeroDivisionError else Inr (PyComplex (of_real a / z)))"

fun num_add :: "pynum \<Rightarrow> pynum \<Rightarrow> pynum" where
  "num_add (PyFloat a) (PyFloat b) = PyFloat (a + b)"
| "num_add (PyFloat a) (PyComplex z) = PyComplex (of_real a + z)"
| "num_add (PyComplex w) (PyFloat b) = PyComplex (w + of_real b)"
| "num_add (PyComplex w) (PyComplex z) = PyComplex (w + z)"

text \<open>
  The generator consumed by \<^verbatim>\<open>sum\<close>, from left to right: the first division that
  raises ends the computation.
\<close>

fun vpl_sum :: "pynum \<Rightarrow> nat \<Rightarrow> real list \<Rightarrow> pynum \<Rightarrow> py_error + pynum" where
  "vpl_sum monthly_discount i [] acc = Inr acc"
| "vpl_sum monthly_discount i (cf # cfs) acc =
     (case num_rdiv cf (num_pow_nat (num_radd 1 monthly_discount) i) of
        Inl e \<Rightarrow> Inl e
      | Inr t \<Rightarrow> vpl_sum monthly_discount (Suc i) cfs (num_add acc t))"

definition compute_vpl :: "real list \<Rightarrow> real \<Rightarrow> py_error + pynum" where
  "compute_vpl cashflows annual_discount_pct =
     (case py_pow_float (1 + annual_discount_pct / 100) (1 / 12) of
        Inl e \<Rightarrow> Inl e
      | Inr p \<Rightarrow>
          (let monthly_discount = num_sub_float p 1
           in vpl_sum monthly_discount 0 cashflows (PyFloat 0)))"

section \<open>Properties of the annuity payment\<close>

text \<open>
  Claim C2. With a zero periodic rate and a number of periods of at least one, the annuity
  payment is exactly the principal divided by the number of periods; for a principal of
  120000 over 12 periods it is 10000; and with zero periods the payment is 0, whatever the
  rate.
\<close>

theorem annuity_payment_zero_rate:
  "(1 \<le> months \<longrightarrow> annuity_payment princ 0 months = Inr (princ / of_int months))
   \<and> annuity_payment 120000 0 12 = Inr 10000
   \<and> annuity_payment princ monthly_rate 0 = Inr 0"
  by (simp add: annuity_payment_def)

theorem annuity_payment_zero_rate_witness:
  "(1::int) \<le> 7 \<and> annuity_payment 350 0 7 = Inr 50
   \<and> annuity_payment 350 (1/100) 0 = Inr 0"
  using annuity_payment_zero_rate [of 7 350 "1/100"] by simp

section \<open>Properties of the consortium cash flows\<close>

text \<open>
  Claim C7. For a term of at least one month, row 0 of the consortium table has every
  component zero except the reserve, which is the initial bid, and its total payment is the
  initial bid; every row 1..months has the same total payment, the credit divided by the
  term plus the monthly administration fee plus the monthly reserve fee. The table has
  months + 1 rows.
\<close>

theorem consorcio_rows:
  assumes "1 \<le> months"
  shows "length (compute_consorcio_cashflows cv months adm res bid) = nat months + 1
    \<and> compute_consorcio_cashflows cv months adm res bid ! 0
        = \<lparr>c_month = 0, c_amortizacao = 0, c_admin = 0, c_reserva = bid, c_parcela = bid\<rparr>
    \<and> (\<forall>m\<in>{1..nat months}.
          c_parcela (compute_consorcio_cashflows cv months adm res bid ! m)
            = cv / of_int months + adm / 100 / 12 * cv + res / 100 * cv)"
  using assms by (auto simp: compute_consorcio_cashflows_def Let_def nth_Cons' )

theorem consorcio_rows_witness:
  "(1::int) \<le> 2
   \<and> compute_consorcio_cashflows 600 2 12 1 50 =
       [\<lparr>c_month = 0, c_amortizacao = 0, c_admin = 0, c_reserva = 50, c_parcela = 50\<rparr>,
        \<lparr>c_month = 1, c_amortizacao = 300, c_admin = 6, c_reserva = 6, c_parcela = 312\<rparr>,
        \<lparr>c_month = 2, c_amortizacao = 300, c_admin = 6, c_reserva = 6, c_parcela = 312\<rparr>]
   \<and> c_parcela (compute_consorcio_cashflows 600 2 12 1 50 ! 2) = 600 / 2 + 12 / 100 / 12 * 600 + 1 / 100 * 600"
  using consorcio_rows [of 2 600 12 1 50]
  by (simp add: compute_consorcio_cashflows_def Let_def upto_rec1)

section \<open>Properties of the internal rate and of the required capital\<close>

lemma npv_negative:
  assumes "\<forall>c\<in>set values. c < 0" and "values \<noteq> []" and "- 1 < rate"
  shows "npv rate values < 0"
proof -
  have "(\<Sum>i\<in>{..<length values}. values ! i / (1 + rate) ^ i)
          < (\<Sum>i\<in>{..<length values}. 0)"
  proof (rule sum_strict_mono)
    show "finite {..<length values}" by simp
    show "{..<length values} \<noteq> {}" using assms(2) by auto
    fix i assume "i \<in> {..<length values}"
    then have "values ! i < 0" using assms(1) by simp
    moreover have "0 < (1 + rate) ^ i" using assms(3) by simp
    ultimately show "values ! i / (1 + rate) ^ i < 0" by (simp add: divide_neg_pos)
  qed
  then show ?thesis by (simp add: npv_def)
qed

lemma two_point_contract:
  "np_irr_contract (\<lambda>vs. if vs = [- 100, 200] then Inr (Num 1) else (Inl ()))"
proof -
  have n: "npv 1 [- 100, 200] = 0"
    by (simp add: npv_def lessThan_Suc)
  show ?thesis
    unfolding np_irr_contract_def
  proof (intro allI impI)
    fix vs :: "real list" and r :: real
    assume a: "(if vs = [- 100, 200] then Inr (Num 1) else Inl ()) = Inr (Num r)"
    then have v: "vs = [- 100, 200]"
      by (simp split: if_splits)
    with a have "r = 1"
      by auto
    with v n show "2 \<le> length vs \<and> - 1 < r \<and> npv r vs = 0"
      by simp
  qed
qed

text \<open>
  Claim C1. On a cash-flow vector whose entries are all negative the internal-rate helper
  returns the not-a-number sentinel, for every \<^verbatim>\<open>np.irr\<close> that keeps its contract;
  and whatever \<^verbatim>\<open>np.irr\<close> raises is caught and turned into the sentinel, so the
  helper itself never raises (it is a total function into \<^typ>\<open>pyfloat\<close>).
\<close>

theorem monthly_irr_all_negative:
  "(np_irr_contract np_irr \<and> (\<forall>c\<in>set cashflows. c < 0)
      \<longrightarrow> monthly_irr_from_cashflows np_irr cashflows = NaN)
   \<and> (np_irr cashflows = Inl e \<longrightarrow> monthly_irr_from_cashflows np_irr cashflows = NaN)"
proof (intro conjI impI)
  assume h: "np_irr_contract np_irr \<and> (\<forall>c\<in>set cashflows. c < 0)"
  show "monthly_irr_from_cashflows np_irr cashflows = NaN"
  proof (cases "np_irr cashflows")
    case (Inl a)
    then show ?thesis by (simp add: monthly_irr_from_cashflows_def)
  next
    case (Inr v)
    show ?thesis
    proof (cases v)
      case (Num r)
      with Inr h have c: "2 \<le> length cashflows" "- 1 < r" "npv r cashflows = 0"
        unfolding np_irr_contract_def by blast+
      from c(1) have "cashflows \<noteq> []" by auto
      with h c(2) have "npv r cashflows < 0" by (simp add: npv_negative)
      with c(3) show ?thesis by simp
    next
      case NaN
      with Inr show ?thesis by (simp add: monthly_irr_from_cashflows_def)
    qed
  qed
next
  assume "np_irr cashflows = Inl e"
  then show "monthly_irr_from_cashflows np_irr cashflows = NaN"
    by (simp add: monthly_irr_from_cashflows_def)
qed

theorem monthly_irr_all_negative_witness:
  "np_irr_contract (\<lambda>vs. if vs = [- 100, 200] then Inr (Num 1) else Inl ())
   \<and> (- 100 :: real) < 0 \<and> (- 110 :: real) < 0
   \<and> monthly_irr_from_cashflows
        (\<lambda>vs. if vs = [- 100, 200] then Inr (Num 1) else Inl ()) [- 100, - 110] = NaN"
  using monthly_irr_all_negative
    [of "\<lambda>vs. if vs = [- 100, 200] then Inr (Num 1) else Inl ()" "[- 100, - 110]" "()"]
    two_point_contract
  by simp

text \<open>
  Claim C8. The required capital is the payment divided by the monthly return when the
  return is positive (1000 at 0.01 gives 100000), and the not-a-number sentinel when the
  return is zero or negative (in particular at 0 and at -0.01).
\<close>

theorem required_capital_cases:
  "(0 < monthly_return_pct \<longrightarrow>
      required_capital_to_cover_payment monthly_payment monthly_return_pct
        = Num (monthly_payment / monthly_return_pct))
   \<and> required_capital_to_cover_payment 1000 (1 / 100) = Num 100000
   \<and> (monthly_return_pct \<le> 0 \<longrightarrow>
      required_capital_to_cover_payment monthly_payment monthly_return_pct = NaN)
   \<and> required_capital_to_cover_payment 1000 0 = NaN
   \<and> required_capital_to_cover_payment 1000 (- (1 / 100)) = NaN"
  by (simp add: required_capital_to_cover_payment_def)

theorem required_capital_cases_witness:
  "(0::real) < 1 / 200 \<and> required_capital_to_cover_payment 3000 (1 / 200) = Num 600000
   \<and> (- 2 :: real) \<le> 0 \<and> required_capital_to_cover_payment 3000 (- 2) = NaN"
  using required_capital_cases [of "1 / 200" 3000] required_capital_cases [of "- 2" 3000]
  by simp

section \<open>Properties of the amortization schedule\<close>




lemma balance_after_shift:
  "balance_after mi p (next_balance mi p b) k = balance_after mi p b (Suc k)"
  by (induction k) simp_all

lemma amortization_loop_length [simp]:
  "length (amortization_loop fa mi p ins fee b ms) = length ms"
  by (induction ms arbitrary: b) (simp_all add: Let_def)

lemma amortization_loop_nth:
  "i < length ms \<Longrightarrow>
   amortization_loop fa mi p ins fee b ms ! i =
     \<lparr>month = ms ! i, saldo_inicial = balance_after mi p b i,
      juros = mi * balance_after mi p b i,
      amortizacao = p - mi * balance_after mi p b i,
      seguro = ins / 100 / 12 * fa,
      outras_taxas = fee / 100 / 12 * balance_after mi p b i,
      parcela = p + ins / 100 / 12 * fa + fee / 100 / 12 * balance_after mi p b i,
      saldo_final = balance_after mi p b (Suc i)\<rparr>"
proof (induction ms arbitrary: b i)
  case Nil
  then show ?case by simp
next
  case (Cons m ms)
  show ?case
  proof (cases i)
    case 0
    then show ?thesis by (simp add: Let_def next_balance_def)
  next
    case (Suc j)
    with Cons.prems have "j < length ms" by simp
    from Cons.IH [OF this] Suc show ?thesis
      by (simp add: Let_def balance_after_shift [symmetric] next_balance_def del: balance_after.simps)
  qed
qed

lemma schedule_unfold:
  assumes "annuity_payment (pv - dp) (rate / 100 / 12) months = Inr p"
  shows "financing_amortization_schedule pv dp months rate ins up fee =
     Inr (\<lparr>month = 0, saldo_inicial = pv - dp, juros = 0, amortizacao = 0, seguro = 0,
           outras_taxas = up / 100 * (pv - dp), parcela = dp + up / 100 * (pv - dp),
           saldo_final = pv - dp\<rparr>
          # amortization_loop (pv - dp) (rate / 100 / 12) p ins fee (pv - dp) [1..months])"
  using assms by (simp add: financing_amortization_schedule_def Let_def)

lemma annuity_payment_nonneg_rate:
  assumes "0 \<le> r"
  shows "\<exists>p. annuity_payment fa r months = Inr p"
proof (cases "months = 0 \<or> r = 0")
  case True
  then show ?thesis by (auto simp: annuity_payment_def)
next
  case False
  then have r: "0 < r" and m: "months \<noteq> 0" using assms by auto
  have "(1 + r) powi (- months) \<noteq> 1"
  proof (cases "0 < months")
    case True
    with r have "1 < (1 + r) powi months"
      by (simp add: one_less_power_int)
    then show ?thesis by (simp add: power_int_minus)
  next
    case False
    with m have "0 < - months" by simp
    with r have "1 < (1 + r) powi (- months)"
      by (simp add: one_less_power_int)
    then show ?thesis by simp
  qed
  then show ?thesis using r m
    by (simp add: annuity_payment_def py_pow_int_def py_div_def Let_def)
qed


text \<open>The payment for a positive rate and a positive term, with natural-number powers.\<close>

lemma annuity_denominator:
  fixes q :: real
  assumes "1 < q"
  shows "a / (1 - inverse q) = a * q / (q - 1)"
proof -
  from assms have "q \<noteq> 0" and "q - 1 \<noteq> 0" by auto
  then have "1 - inverse q = (q - 1) / q"
    by (simp add: field_simps)
  then show ?thesis by simp
qed

lemma annuity_payment_pos:
  assumes "0 < r" and "0 < months"
  shows "annuity_payment fa r months
           = Inr (r * fa * (1 + r) ^ nat months / ((1 + r) ^ nat months - 1))"
proof -
  let ?q = "(1 + r) ^ nat months"
  have q: "1 < ?q"
    using assms by (simp add: one_less_power)
  have pw: "(1 + r) powi (- months) = inverse ?q"
    using assms by (simp add: power_int_minus power_int_nonneg_exp)
  have ne: "1 - inverse ?q \<noteq> 0"
    using q by (simp add: inverse_eq_1_iff)
  have "r * fa / (1 - inverse ?q) = r * fa * ?q / (?q - 1)"
    using q by (rule annuity_denominator)
  with ne pw assms show ?thesis
    by (simp add: annuity_payment_def py_pow_int_def py_div_def Let_def)
qed


lemma next_balance_bounds:
  assumes "0 \<le> mi" and "mi * fa \<le> p" and "0 \<le> b" and "b \<le> fa"
  shows "0 \<le> next_balance mi p b \<and> next_balance mi p b \<le> b"
proof -
  have "mi * b \<le> mi * fa"
    using assms by (simp add: mult_left_mono)
  with assms show ?thesis
    by (simp add: next_balance_def)
qed

lemma balance_after_bounds:
  assumes "0 \<le> mi" and "mi * fa \<le> p" and "0 \<le> fa"
  shows "0 \<le> balance_after mi p fa k \<and> balance_after mi p fa k \<le> fa
         \<and> balance_after mi p fa (Suc k) \<le> balance_after mi p fa k"
proof (induction k)
  case 0
  from next_balance_bounds [OF assms(1,2,3)] assms(3) show ?case by simp
next
  case (Suc k)
  then have b: "0 \<le> balance_after mi p fa (Suc k)" "balance_after mi p fa (Suc k) \<le> fa"
    using next_balance_bounds [OF assms(1,2), of "balance_after mi p fa k"] by auto
  from next_balance_bounds [OF assms(1,2) b] b show ?case by simp
qed


lemma schedule_rows:
  assumes "annuity_payment (pv - dp) (rate / 100 / 12) months = Inr p"
  shows "\<exists>rows. financing_amortization_schedule pv dp months rate ins up fee = Inr rows
    \<and> length rows = nat months + 1
    \<and> (\<forall>i\<le>nat months.
           saldo_final (rows ! i) = balance_after (rate / 100 / 12) p (pv - dp) i)
    \<and> (\<forall>i<nat months.
           amortizacao (rows ! Suc i)
             = p - rate / 100 / 12 * balance_after (rate / 100 / 12) p (pv - dp) i)
    \<and> (\<forall>i<nat months.
           juros (rows ! Suc i) = rate / 100 / 12 * balance_after (rate / 100 / 12) p (pv - dp) i)"
proof -
  let ?loop = "amortization_loop (pv - dp) (rate / 100 / 12) p ins fee (pv - dp) [1..months]"
  let ?rows = "\<lparr>month = 0, saldo_inicial = pv - dp, juros = 0, amortizacao = 0, seguro = 0,
           outras_taxas = up / 100 * (pv - dp), parcela = dp + up / 100 * (pv - dp),
           saldo_final = pv - dp\<rparr> # ?loop"
  have "financing_amortization_schedule pv dp months rate ins up fee = Inr ?rows"
    using assms by (rule schedule_unfold)
  moreover have "length ?rows = nat months + 1" by simp
  moreover have "saldo_final (?rows ! i) = balance_after (rate / 100 / 12) p (pv - dp) i"
    if "i \<le> nat months" for i
    using that by (cases i) (simp_all add: amortization_loop_nth del: balance_after.simps(2))
  moreover have "amortizacao (?rows ! Suc i)
        = p - rate / 100 / 12 * balance_after (rate / 100 / 12) p (pv - dp) i"
    if "i < nat months" for i
    using that by (simp add: amortization_loop_nth)
  moreover have "juros (?rows ! Suc i)
        = rate / 100 / 12 * balance_after (rate / 100 / 12) p (pv - dp) i"
    if "i < nat months" for i
    using that by (simp add: amortization_loop_nth)
  ultimately show ?thesis by blast
qed




















lemma annuity_payment_exceeds_interest:
  assumes "0 < r" and "0 < months" and "0 < fa"
    and "annuity_payment fa r months = Inr p"
  shows "r * fa < p"
proof -
  let ?q = "(1 + r) ^ nat months"
  have q: "1 < ?q"
    using assms(1,2) by (simp add: one_less_power)
  have p: "p = r * fa * ?q / (?q - 1)"
    using annuity_payment_pos [OF assms(1,2), of fa] assms(4) by simp
  have "0 < r * fa" using assms(1,3) by simp
  then have "r * fa * (?q - 1) < r * fa * ?q"
    by (simp add: mult_strict_left_mono)
  then have "r * fa < r * fa * ?q / (?q - 1)"
    using q by (simp add: less_divide_eq)
  with p show ?thesis by simp
qed

lemma last_opening_balance_below:
  assumes "0 < r" and "2 \<le> months" and "0 < fa"
    and "annuity_payment fa r months = Inr p"
  shows "balance_after r p fa (nat months - 1) < fa"
proof -
  from assms(2) have m: "0 < months" by simp
  from assms(1) have r: "0 \<le> r" by simp
  from assms(3) have fa: "0 \<le> fa" by simp
  from annuity_payment_exceeds_interest [OF assms(1) m assms(3,4)] have lt: "r * fa < p" .
  then have le: "r * fa \<le> p" by simp
  have step: "balance_after r p fa (Suc k) \<le> balance_after r p fa k" for k
    using balance_after_bounds [OF r le fa, of k] by blast
  from assms(2) have "Suc 0 \<le> nat months - 1" by simp
  with step have "balance_after r p fa (nat months - 1) \<le> balance_after r p fa (Suc 0)"
    by (rule lift_Suc_antimono_le)
  also have "balance_after r p fa (Suc 0) = max (fa - (p - r * fa)) 0"
    by (simp add: next_balance_def)
  also have "\<dots> < fa"
    using lt assms(3) by simp
  finally show ?thesis .
qed

lemma principal_grows:
  assumes "dp < pv" and "2 \<le> months" and "0 < rate"
  shows "\<exists>rows. financing_amortization_schedule pv dp months rate ins up fee = Inr rows
           \<and> amortizacao (rows ! 1) < amortizacao (rows ! nat months)
           \<and> juros (rows ! nat months) < juros (rows ! 1)"
proof -
  let ?mi = "rate / 100 / 12"
  let ?n = "nat months"
  from assms(3) have mi: "0 < ?mi" by simp
  then have mi0: "0 \<le> ?mi" by simp
  from assms(1) have fa: "0 < pv - dp" by simp
  from annuity_payment_nonneg_rate [OF mi0] obtain p
    where p: "annuity_payment (pv - dp) ?mi months = Inr p" by blast
  let ?B = "balance_after ?mi p (pv - dp)"
  from schedule_rows [OF p, of ins up fee] obtain rows where
    r: "financing_amortization_schedule pv dp months rate ins up fee = Inr rows"
    and am: "\<And>i. i < ?n \<Longrightarrow> amortizacao (rows ! Suc i) = p - ?mi * ?B i"
    and ju: "\<And>i. i < ?n \<Longrightarrow> juros (rows ! Suc i) = ?mi * ?B i"
    by blast
  from assms(2) have n: "0 < ?n" "?n - 1 < ?n" "Suc (?n - 1) = ?n" by simp_all
  from last_opening_balance_below [OF mi assms(2) fa p] mi
  have "?mi * ?B (?n - 1) < ?mi * ?B 0" by simp
  with am [OF n(1)] am [OF n(2)] ju [OF n(1)] ju [OF n(2)] n(3)
  have "amortizacao (rows ! 1) < amortizacao (rows ! ?n) \<and> juros (rows ! ?n) < juros (rows ! 1)"
    by simp
  with r show ?thesis by blast
qed

text \<open>
  Claim C9. For a property value of 600000, a down payment of 120000, 360 months, 9 percent
  a year, 0.6 percent insurance, 1 percent upfront fee and no monthly fee, the schedule is
  built, its principal component at period 360 is strictly greater than at period 1, and its
  interest component at period 360 is strictly less than at period 1.
\<close>

theorem scenario_principal_interest:
  "\<exists>rows. financing_amortization_schedule 600000 120000 360 9 (6 / 10) 1 0 = Inr rows
     \<and> amortizacao (rows ! 1) < amortizacao (rows ! 360)
     \<and> juros (rows ! 360) < juros (rows ! 1)"
  using principal_grows [of 120000 600000 360 9 "6 / 10" 1 0] by simp

section \<open>Properties of the net present value\<close>







text \<open>
  At exactly -100 percent the monthly factor is 0, and the division for the second cash
  flow raises \<^verbatim>\<open>ZeroDivisionError\<close>.
\<close>

lemma compute_vpl_minus_100:
  "compute_vpl [1, 1] (- 100) = Inl ZeroDivisionError"
  by (simp add: compute_vpl_def py_pow_float_def)

end
